theory Spec2Isabelle
  imports Main "HOL-Library.Char_ord" "HOL-Library.List_Lexorder"
begin

section \<open>quarkchain/db.py: the overlay database\<close>

text \<open>
  \<^verbatim>\<open>OverlayDb\<close> wraps another database object (field \<^verbatim>\<open>_db\<close>) and keeps a Python
  dict \<^verbatim>\<open>overlay\<close>. A dict entry holds either a value or Python's \<^verbatim>\<open>None\<close> (written by
  \<^verbatim>\<open>delete\<close>), so the overlay is a map into \<open>'v option\<close>: \<open>overlay k = None\<close> says the
  key is not in the dict, \<open>overlay k = Some None\<close> says it is there with \<^verbatim>\<open>None\<close>.
  The wrapped database is read only through its \<^verbatim>\<open>get(key)\<close>, which answers a value or
  \<^verbatim>\<open>None\<close> (\<^verbatim>\<open>InMemoryDb.get\<close>, \<^verbatim>\<open>PersistentDb.get\<close> with the default left out); it is
  the map \<open>wrapped_db\<close>.
\<close>

record ('k, 'v) OverlayDb =
  wrapped_db :: "'k \<rightharpoonup> 'v"
  overlay :: "'k \<rightharpoonup> 'v option"

definition OverlayDb_init :: "('k \<rightharpoonup> 'v) \<Rightarrow> ('k, 'v) OverlayDb" where
  "OverlayDb_init db = \<lparr>wrapped_db = db, overlay = Map.empty\<rparr>"

definition OverlayDb_get :: "('k, 'v) OverlayDb \<Rightarrow> 'k \<Rightarrow> 'v option" where
  "OverlayDb_get self key =
     (case overlay self key of
        Some entry \<Rightarrow> entry
      | None \<Rightarrow> wrapped_db self key)"

definition OverlayDb_put :: "('k, 'v) OverlayDb \<Rightarrow> 'k \<Rightarrow> 'v \<Rightarrow> ('k, 'v) OverlayDb" where
  "OverlayDb_put self key val = self\<lparr>overlay := (overlay self)(key \<mapsto> Some val)\<rparr>"

definition OverlayDb_delete :: "('k, 'v) OverlayDb \<Rightarrow> 'k \<Rightarrow> ('k, 'v) OverlayDb" where
  "OverlayDb_delete self key = self\<lparr>overlay := (overlay self)(key \<mapsto> None)\<rparr>"

definition OverlayDb_has_key :: "('k, 'v) OverlayDb \<Rightarrow> 'k \<Rightarrow> bool" where
  "OverlayDb_has_key self key =
     (case overlay self key of
        Some entry \<Rightarrow> entry \<noteq> None
      | None \<Rightarrow> wrapped_db self key \<noteq> None)"

text \<open>A sequence of calls on one overlay object.\<close>

datatype ('k, 'v) overlay_call = Put 'k 'v | Delete 'k

fun overlay_step :: "('k, 'v) OverlayDb \<Rightarrow> ('k, 'v) overlay_call \<Rightarrow> ('k, 'v) OverlayDb" where
  "overlay_step self (Put key val) = OverlayDb_put self key val"
| "overlay_step self (Delete key) = OverlayDb_delete self key"

definition overlay_run :: "('k, 'v) OverlayDb \<Rightarrow> ('k, 'v) overlay_call list \<Rightarrow> ('k, 'v) OverlayDb" where
  "overlay_run self calls = foldl overlay_step self calls"

text \<open>
  What the claim expects of a read: the latest call of the sequence that names the key
  decides (\<open>Some (Some v)\<close> after a put of \<open>v\<close>, \<open>Some None\<close> after a delete), and
  \<open>None\<close> says that no call named the key.
\<close>

fun latest_call :: "('k, 'v) overlay_call list \<Rightarrow> 'k \<Rightarrow> 'v option option" where
  "latest_call [] key = None"
| "latest_call (Put k v # calls) key =
     (case latest_call calls key of
        Some r \<Rightarrow> Some r
      | None \<Rightarrow> if k = key then Some (Some v) else None)"
| "latest_call (Delete k # calls) key =
     (case latest_call calls key of
        Some r \<Rightarrow> Some r
      | None \<Rightarrow> if k = key then Some None else None)"

definition expected_read :: "('k \<rightharpoonup> 'v) \<Rightarrow> ('k, 'v) overlay_call list \<Rightarrow> 'k \<Rightarrow> 'v option" where
  "expected_read db calls key =
     (case latest_call calls key of
        Some r \<Rightarrow> r
      | None \<Rightarrow> db key)"

section \<open>quarkchain/cluster/master.py: the cluster controller\<close>

text \<open>
  Exceptions of the Python code are values. \<open>CheckFailed\<close> is what
  \<^verbatim>\<open>quarkchain.utils.check\<close> raises on a false condition, \<open>OSError\<close> stands for any
  exception of \<^verbatim>\<open>asyncio.open_connection\<close>.
\<close>

datatype exn =
    CheckFailed | NameError string | KeyError string | NoSuchProcess nat | ValueError | OSError

text \<open>
  Modelled from the spec: \<^verbatim>\<open>quarkchain.utils.check\<close> is not among the sources. The spec
  states the two conditions it guards as requirements (a slave's mask list is non-empty, the
  mesh result list is as long as the target list), so a false condition raises.
\<close>

definition check :: "bool \<Rightarrow> exn + unit" where
  "check condition = (if condition then Inr () else Inl CheckFailed)"

text \<open>One entry of \<^verbatim>\<open>config["slaves"]\<close> in the cluster configuration file.\<close>

record slave_config =
  s_id :: string
  s_ip :: string
  s_port :: int
  s_shard_masks :: "int list"
  s_db_path_root :: string

text \<open>\<^verbatim>\<open>SlaveInfo(id, ip, port, shardMaskList)\<close> of \<^verbatim>\<open>quarkchain.cluster.rpc\<close>.\<close>

record SlaveInfo =
  info_id :: string
  info_ip :: int
  info_port :: int
  info_shardMaskList :: "int list"

text \<open>
  A \<^verbatim>\<open>SlaveConnection\<close> object: the stream pair it was built over (\<open>conn\<close>), and the
  \<^verbatim>\<open>id\<close> and \<^verbatim>\<open>shardMaskList\<close> the constructor was given.
\<close>

record 'c SlaveConnection =
  conn :: 'c
  slave_id :: string
  shardMaskList :: "int list"

text \<open>
  What the controller cannot decide by itself is a parameter:
  \<^item> \<open>ip_int s\<close> is \<^verbatim>\<open>int(ipaddress.ip_address(s))\<close>, and \<open>None\<close> when \<open>s\<close> is not the
    literal of an address and \<^verbatim>\<open>ipaddress.ip_address\<close> raises \<^verbatim>\<open>ValueError\<close>; \<open>ip_str n\<close> is
    \<^verbatim>\<open>str(ipaddress.ip_address(n))\<close> on the integers so obtained;
  \<^item> \<open>is_shard_in_mask\<close> is \<^verbatim>\<open>quarkchain.utils.is_shard_in_mask\<close>, \<open>getShardSize\<close> is
    \<^verbatim>\<open>qcState.getShardSize()\<close>;
  \<^item> \<open>open_connection ip port k\<close> is the outcome of the attempt number \<open>k\<close> (from 0) of one
    \<^verbatim>\<open>__connect(ip, port)\<close> call: an exception or the stream pair;
  \<^item> \<open>ping_reply c\<close> is the \<^verbatim>\<open>(resp.id, resp.shardMaskList)\<close> that the slave behind \<open>c\<close>
    answers to \<^verbatim>\<open>PING\<close>, \<open>connect_reply c targets\<close> the \<^verbatim>\<open>resp.resultList\<close> it answers to
    \<^verbatim>\<open>CONNECT_TO_SLAVES_REQUEST\<close>;
  \<^item> \<open>poolOrder\<close> is the order in which Python enumerates the set \<^verbatim>\<open>slavePool\<close>.
\<close>

record 'c env =
  ip_int :: "string \<Rightarrow> int option"
  ip_str :: "int \<Rightarrow> string"
  is_shard_in_mask :: "nat \<Rightarrow> int \<Rightarrow> bool"
  getShardSize :: nat
  open_connection :: "string \<Rightarrow> int \<Rightarrow> nat \<Rightarrow> exn + 'c"
  ping_reply :: "'c \<Rightarrow> string \<times> int list"
  connect_reply :: "'c \<Rightarrow> SlaveInfo list \<Rightarrow> string list"
  poolOrder :: "'c SlaveConnection list \<Rightarrow> 'c SlaveConnection list"

text \<open>What the controller does to the outside, in order.\<close>

datatype 'c event =
    Slept int
  | PingSent 'c
  | ConnectToSlavesSent "'c SlaveConnection" "SlaveInfo list"
  | ConnectToSlavesReturned "'c SlaveConnection" bool

text \<open>
  The \<^verbatim>\<open>MasterServer\<close> object. \<^verbatim>\<open>slavePool\<close> is a Python set: the list holds its
  members once each. \<open>loopStopped\<close> says that \<^verbatim>\<open>self.loop.stop()\<close> has been called.
\<close>

record 'c MasterServer =
  shardToSlaves :: "'c SlaveConnection list list"
  slavePool :: "'c SlaveConnection list"
  loopStopped :: bool
  trace :: "'c event list"

text \<open>
  How a run of the coroutine \<^verbatim>\<open>__initCluster\<close> ends. \<^verbatim>\<open>loop.stop()\<close> lets the loop
  finish the callback it is in and then leave \<^verbatim>\<open>run_forever\<close>: the coroutine runs on to
  its next await of something pending and is never resumed there (\<open>Suspended\<close>).
\<close>

datatype outcome = Returned | Raised exn | Suspended

text \<open>\<^verbatim>\<open>ClusterConfig.getSlaveInfoList\<close>: the entries in the order of the configuration; the
  first ip that is not an address literal raises \<^verbatim>\<open>ValueError\<close>.\<close>

fun getSlaveInfoList :: "'c env \<Rightarrow> slave_config list \<Rightarrow> exn + SlaveInfo list" where
  "getSlaveInfoList env [] = Inr []"
| "getSlaveInfoList env (slave # rest) =
     (case ip_int env (s_ip slave) of
        None \<Rightarrow> Inl ValueError
      | Some ip \<Rightarrow>
          (case getSlaveInfoList env rest of
             Inl e \<Rightarrow> Inl e
           | Inr results \<Rightarrow>
               Inr (\<lparr>info_id = s_id slave, info_ip = ip, info_port = s_port slave,
                     info_shardMaskList = s_shard_masks slave\<rparr> # results)))"

definition SlaveConnection_init ::
  "'c \<Rightarrow> string \<Rightarrow> int list \<Rightarrow> exn + 'c SlaveConnection" where
  "SlaveConnection_init c slaveId maskList =
     (case check (length maskList > 0) of
        Inl e \<Rightarrow> Inl e
      | Inr _ \<Rightarrow> Inr \<lparr>conn = c, slave_id = slaveId, shardMaskList = maskList\<rparr>)"

fun any_mask :: "(int \<Rightarrow> bool) \<Rightarrow> int list \<Rightarrow> bool" where
  "any_mask inMask [] = False"
| "any_mask inMask (shardMask # rest) = (if inMask shardMask then True else any_mask inMask rest)"

definition hasShard :: "'c env \<Rightarrow> 'c SlaveConnection \<Rightarrow> nat \<Rightarrow> bool" where
  "hasShard env self shardId = any_mask (is_shard_in_mask env shardId) (shardMaskList self)"

definition sendPing :: "'c env \<Rightarrow> 'c SlaveConnection \<Rightarrow> string \<times> int list" where
  "sendPing env self = ping_reply env (conn self)"

text \<open>The loop of \<^verbatim>\<open>sendConnectToSlaves\<close> over \<^verbatim>\<open>resp.resultList\<close>: the first non-empty
  entry returns \<^verbatim>\<open>False\<close>.\<close>

fun results_loop :: "string list \<Rightarrow> bool" where
  "results_loop [] = True"
| "results_loop (result # rest) = (if length result > 0 then False else results_loop rest)"

definition sendConnectToSlaves ::
  "'c env \<Rightarrow> 'c SlaveConnection \<Rightarrow> SlaveInfo list \<Rightarrow> exn + bool" where
  "sendConnectToSlaves env self slaveInfoList =
     (let resultList = connect_reply env (conn self) slaveInfoList in
      case check (length resultList = length slaveInfoList) of
        Inl e \<Rightarrow> Inl e
      | Inr _ \<Rightarrow> Inr (results_loop resultList))"

definition MasterServer_init :: "'c env \<Rightarrow> 'c MasterServer" where
  "MasterServer_init env =
     \<lparr>shardToSlaves = replicate (getShardSize env) [], slavePool = [],
      loopStopped = False, trace = []\<rparr>"

definition MasterServer_shutdown :: "'c MasterServer \<Rightarrow> 'c MasterServer" where
  "MasterServer_shutdown self = self\<lparr>loopStopped := True\<rparr>"

definition hasAllShards :: "'c MasterServer \<Rightarrow> bool" where
  "hasAllShards self = list_all (\<lambda>slaves. length slaves > 0) (shardToSlaves self)"

text \<open>
  \<^verbatim>\<open>__connect\<close>: the retry loop. \<open>attempt k\<close> is the outcome of attempt \<open>k\<close>; every
  exception is caught and followed by \<^verbatim>\<open>asyncio.sleep(1)\<close>. The result is the stream pair
  with the sleeps made, and \<open>None\<close> when the loop never ends.
\<close>

partial_function (option) connect_from ::
  "(nat \<Rightarrow> exn + 'c) \<Rightarrow> nat \<Rightarrow> int list \<Rightarrow> ('c \<times> int list) option" where
  "connect_from attempt k sleeps =
     (case attempt k of
        Inr c \<Rightarrow> Some (c, sleeps)
      | Inl e \<Rightarrow> connect_from attempt (Suc k) (sleeps @ [1]))"

definition MasterServer_connect :: "'c env \<Rightarrow> string \<Rightarrow> int \<Rightarrow> ('c \<times> int list) option" where
  "MasterServer_connect env ip port = connect_from (open_connection env ip port) 0 []"

text \<open>\<^verbatim>\<open>self.slavePool.add(slave)\<close>. The \<^verbatim>\<open>SlaveConnection\<close> was built in this pass of
  the loop and objects of the class are compared by identity, so the set gains a member,
  also when a connection with the same fields is in it.\<close>

definition pool_add :: "'a list \<Rightarrow> 'a \<Rightarrow> 'a list" where
  "pool_add pool x = pool @ [x]"

text \<open>The loop over \<^verbatim>\<open>range(self.__getShardSize())\<close> that appends the slave to the entries
  of the shards it has.\<close>

definition assign_shards ::
  "'c env \<Rightarrow> 'c SlaveConnection \<Rightarrow> 'c SlaveConnection list list \<Rightarrow> 'c SlaveConnection list list" where
  "assign_shards env slave table =
     foldl (\<lambda>tbl shardId. if hasShard env slave shardId
                            then tbl[shardId := tbl ! shardId @ [slave]] else tbl)
       table [0..<getShardSize env]"

text \<open>The two comparisons after the ping, each calling \<^verbatim>\<open>shutdown\<close> and going on.\<close>

definition verify_ping ::
  "SlaveInfo \<Rightarrow> string \<times> int list \<Rightarrow> 'c MasterServer \<Rightarrow> 'c MasterServer" where
  "verify_ping slaveInfo reply self =
     (let self1 = (if fst reply \<noteq> info_id slaveInfo then MasterServer_shutdown self else self)
      in if snd reply \<noteq> info_shardMaskList slaveInfo then MasterServer_shutdown self1 else self1)"

text \<open>
  The body of the loop of \<^verbatim>\<open>__connectToSlaves\<close> once the \<^verbatim>\<open>SlaveConnection\<close> is
  built and active: the ping, the two comparisons, \<^verbatim>\<open>slavePool.add\<close> and the shard loop.
  Nothing between the comparisons and the registration awaits or returns.
\<close>

definition verify_and_register ::
  "'c env \<Rightarrow> SlaveInfo \<Rightarrow> 'c SlaveConnection \<Rightarrow> 'c MasterServer \<Rightarrow> 'c MasterServer" where
  "verify_and_register env slaveInfo slave self =
     (let self1 = self\<lparr>trace := trace self @ [PingSent (conn slave)]\<rparr>;
          self2 = verify_ping slaveInfo (sendPing env slave) self1;
          self3 = self2\<lparr>slavePool := pool_add (slavePool self2) slave\<rparr>
      in self3\<lparr>shardToSlaves := assign_shards env slave (shardToSlaves self3)\<rparr>)"

text \<open>
  \<^verbatim>\<open>__connectToSlaves\<close>, one slave after the other. The await of
  \<^verbatim>\<open>open_connection\<close> is where a stopped loop leaves the coroutine.
\<close>

fun connectToSlaves ::
  "'c env \<Rightarrow> SlaveInfo list \<Rightarrow> 'c MasterServer \<Rightarrow> (outcome \<times> 'c MasterServer) option" where
  "connectToSlaves env [] self = Some (Returned, self)"
| "connectToSlaves env (slaveInfo # rest) self =
     (if loopStopped self then Some (Suspended, self)
      else
        case MasterServer_connect env (ip_str env (info_ip slaveInfo)) (info_port slaveInfo) of
          None \<Rightarrow> None
        | Some (c, sleeps) \<Rightarrow>
            (let self1 = self\<lparr>trace := trace self @ map Slept sleeps\<rparr> in
             case SlaveConnection_init c (info_id slaveInfo) (info_shardMaskList slaveInfo) of
               Inl e \<Rightarrow> Some (Raised e, self1)
             | Inr slave \<Rightarrow>
                 connectToSlaves env rest (verify_and_register env slaveInfo slave self1)))"

text \<open>
  \<^verbatim>\<open>__setupSlaveToSlaveConnections\<close> over the enumeration of the pool. A slave of the
  pool is active already, so \<^verbatim>\<open>waitUntilActive\<close> does not wait; the argument
  \<^verbatim>\<open>self.clusterConfig.getSlaveInfoList()\<close> is evaluated, the request is written and the
  reply awaited, which is where a stopped loop leaves the coroutine.
\<close>

fun mesh_loop ::
  "'c env \<Rightarrow> slave_config list \<Rightarrow> 'c SlaveConnection list \<Rightarrow> 'c MasterServer
     \<Rightarrow> outcome \<times> 'c MasterServer" where
  "mesh_loop env config [] self = (Returned, self)"
| "mesh_loop env config (slave # rest) self =
     (case getSlaveInfoList env config of
        Inl e \<Rightarrow> (Raised e, self)
      | Inr slaveInfoList \<Rightarrow>
          (let self1 = self\<lparr>trace := trace self @ [ConnectToSlavesSent slave slaveInfoList]\<rparr>
           in if loopStopped self1 then (Suspended, self1)
              else
                case sendConnectToSlaves env slave slaveInfoList of
                  Inl e \<Rightarrow> (Raised e, self1)
                | Inr success \<Rightarrow>
                    (let self2 = self1\<lparr>trace := trace self1 @
                                   [ConnectToSlavesReturned slave success]\<rparr>;
                         self3 = (if \<not> success then MasterServer_shutdown self2 else self2)
                     in mesh_loop env config rest self3)))"

definition setupSlaveToSlaveConnections ::
  "'c env \<Rightarrow> slave_config list \<Rightarrow> 'c MasterServer \<Rightarrow> outcome \<times> 'c MasterServer" where
  "setupSlaveToSlaveConnections env config self =
     mesh_loop env config (poolOrder env (slavePool self)) self"

text \<open>\<^verbatim>\<open>__initCluster\<close>: \<^verbatim>\<open>__connectToSlaves\<close>, whose loop header evaluates
  \<^verbatim>\<open>getSlaveInfoList()\<close>, then the coverage check and the mesh phase.\<close>

definition initCluster ::
  "'c env \<Rightarrow> slave_config list \<Rightarrow> 'c MasterServer \<Rightarrow> (outcome \<times> 'c MasterServer) option" where
  "initCluster env config self =
     (case getSlaveInfoList env config of
        Inl e \<Rightarrow> Some (Raised e, self)
      | Inr slaveInfoList \<Rightarrow>
          (case connectToSlaves env slaveInfoList self of
             None \<Rightarrow> None
           | Some (Returned, self1) \<Rightarrow>
               if \<not> hasAllShards self1 then Some (Returned, self1)
               else Some (setupSlaveToSlaveConnections env config self1)
           | Some (out, self1) \<Rightarrow> Some (out, self1)))"

text \<open>The mesh requests of a trace: recipient and target list.\<close>

fun mesh_requests :: "'c event list \<Rightarrow> ('c SlaveConnection \<times> SlaveInfo list) list" where
  "mesh_requests [] = []"
| "mesh_requests (ConnectToSlavesSent slave targets # evs) = (slave, targets) # mesh_requests evs"
| "mesh_requests (ev # evs) = mesh_requests evs"

text \<open>
  A cluster of two slaves over two shards for the concrete runs below: the mask 2 holds the
  even shard ids, the mask 3 the odd ones; every connection is refused twice and then
  accepted; both slaves answer the ping with their configured identity and every mesh
  target with the empty string.
\<close>

definition example_env :: "nat env" where
  "example_env = \<lparr>ip_int = (\<lambda>s. Some 2130706433), ip_str = (\<lambda>n. ''127.0.0.1''),
     is_shard_in_mask = (\<lambda>s m. if m = 2 then even s else if m = 3 then odd s else False),
     getShardSize = 2,
     open_connection = (\<lambda>ip port k. if k < 2 then Inl OSError else Inr (nat port)),
     ping_reply = (\<lambda>c. if c = 38000 then (''S0'', [2]) else (''S1'', [3])),
     connect_reply = (\<lambda>c targets. map (\<lambda>_. []) targets),
     poolOrder = (\<lambda>pool. pool)\<rparr>"

definition example_config :: "slave_config list" where
  "example_config =
     [\<lparr>s_id = ''S0'', s_ip = ''127.0.0.1'', s_port = 38000, s_shard_masks = [2],
       s_db_path_root = ''./''\<rparr>,
      \<lparr>s_id = ''S1'', s_ip = ''127.0.0.1'', s_port = 38001, s_shard_masks = [3],
       s_db_path_root = ''./''\<rparr>]"

subsection \<open>Notions and concrete clusters for the properties\<close>


text \<open>The list the specification describes for the mesh request: the configured slaves
  without the recipient.\<close>

definition other_slaves :: "SlaveInfo list \<Rightarrow> 'c SlaveConnection \<Rightarrow> SlaveInfo list" where
  "other_slaves slaveInfoList recipient =
     filter (\<lambda>info. info_id info \<noteq> slave_id recipient) slaveInfoList"

text \<open>The mesh requests of a whole bring-up from a fresh \<^verbatim>\<open>MasterServer\<close>.\<close>

definition sent_mesh_requests ::
  "'c env \<Rightarrow> slave_config list \<Rightarrow> ('c SlaveConnection \<times> SlaveInfo list) list option" where
  "sent_mesh_requests env config =
     (case initCluster env config (MasterServer_init env) of
        None \<Rightarrow> None
      | Some (out, self') \<Rightarrow> Some (mesh_requests (trace self')))"

text \<open>The example cluster where the slave behind port 38000 reports every mesh target as
  refused.\<close>

definition failing_mesh_env :: "nat env" where
  "failing_mesh_env = example_env\<lparr>connect_reply :=
     (\<lambda>c targets. if c = 38000 then map (\<lambda>_. ''refused'') targets else map (\<lambda>_. []) targets)\<rparr>"

text \<open>The \<^verbatim>\<open>SlaveInfo\<close> entries and the \<^verbatim>\<open>SlaveConnection\<close> objects of the example
  cluster.\<close>

definition S0_info :: SlaveInfo where
  "S0_info = \<lparr>info_id = ''S0'', info_ip = 2130706433, info_port = 38000,
               info_shardMaskList = [2]\<rparr>"

definition S1_info :: SlaveInfo where
  "S1_info = \<lparr>info_id = ''S1'', info_ip = 2130706433, info_port = 38001,
               info_shardMaskList = [3]\<rparr>"

definition S0_conn :: "nat SlaveConnection" where
  "S0_conn = \<lparr>conn = 38000, slave_id = ''S0'', shardMaskList = [2]\<rparr>"

definition S1_conn :: "nat SlaveConnection" where
  "S1_conn = \<lparr>conn = 38001, slave_id = ''S1'', shardMaskList = [3]\<rparr>"

text \<open>The example cluster where the process behind port 38000 answers the ping with the
  id \<^verbatim>\<open>S9\<close> instead of the configured \<^verbatim>\<open>S0\<close>.\<close>

definition swapped_env :: "nat env" where
  "swapped_env = example_env\<lparr>ping_reply :=
     (\<lambda>c. if c = 38000 then (''S9'', [2]) else (''S1'', [3]))\<rparr>"

text \<open>The \<^verbatim>\<open>MasterServer\<close> at the end of the bring-up of the example cluster, and of the
  one with the refusing slave.\<close>

definition example_final :: "nat MasterServer" where
  "example_final =
     \<lparr>shardToSlaves = [[S0_conn], [S1_conn]], slavePool = [S0_conn, S1_conn],
      loopStopped = False,
      trace = [Slept 1, Slept 1, PingSent 38000, Slept 1, Slept 1, PingSent 38001,
               ConnectToSlavesSent S0_conn [S0_info, S1_info],
               ConnectToSlavesReturned S0_conn True,
               ConnectToSlavesSent S1_conn [S0_info, S1_info],
               ConnectToSlavesReturned S1_conn True]\<rparr>"



section \<open>quarkchain/cluster/cluster.py: the supervisor\<close>

subsection \<open>Values, names and strings of Python\<close>

text \<open>The Python values that the supervisor handles: strings, integers, booleans,
  \<^verbatim>\<open>None\<close>, and the modules, functions and classes bound at module level.\<close>

datatype pyval = PStr string | PInt int | PBool bool | PNone | PObj string

text \<open>A scope binds names to values, the first binding of a name counting.\<close>

type_synonym scope = "(string \<times> pyval) list"

text \<open>The names bound at module level of \<^verbatim>\<open>cluster.py\<close>: its imports, \<^verbatim>\<open>IP\<close>, \<^verbatim>\<open>PORT\<close>,
  its functions and its class.\<close>

definition module_globals :: scope where
  "module_globals =
     [(''argparse'', PObj ''argparse''), (''asyncio'', PObj ''asyncio''),
      (''json'', PObj ''json''), (''os'', PObj ''os''), (''tempfile'', PObj ''tempfile''),
      (''signal'', PObj ''signal''), (''psutil'', PObj ''psutil''),
      (''subprocess'', PObj ''subprocess''), (''DEFAULT_ENV'', PObj ''DEFAULT_ENV''),
      (''create_cluster_config'', PObj ''create_cluster_config''), (''is_p2'', PObj ''is_p2''),
      (''IP'', PStr ''127.0.0.1''), (''PORT'', PInt 38000),
      (''kill_child_processes'', PObj ''kill_child_processes''),
      (''dump_config_to_file'', PObj ''dump_config_to_file''),
      (''run_master'', PObj ''run_master''), (''run_slave'', PObj ''run_slave''),
      (''print_output'', PObj ''print_output''), (''Cluster'', PObj ''Cluster''),
      (''main'', PObj ''main'')]"

text \<open>Reading a name in a function body: the frame of the call, then the module; a name
  bound in neither raises \<^verbatim>\<open>NameError\<close> (none of the names read below is a builtin).\<close>

definition load_name :: "scope \<Rightarrow> string \<Rightarrow> exn + pyval" where
  "load_name frame name =
     (case map_of frame name of
        Some v \<Rightarrow> Inr v
      | None \<Rightarrow> (case map_of module_globals name of
                   Some v \<Rightarrow> Inr v
                 | None \<Rightarrow> Inl (NameError name)))"

text \<open>\<^verbatim>\<open>d[key]\<close> on a dict.\<close>

definition subscript :: "scope \<Rightarrow> string \<Rightarrow> exn + pyval" where
  "subscript d key = (case map_of d key of Some v \<Rightarrow> Inr v | None \<Rightarrow> Inl (KeyError key))"

text \<open>The arguments of a call are evaluated from left to right, the first exception ending
  the evaluation.\<close>

fun eval_args :: "(exn + pyval) list \<Rightarrow> exn + pyval list" where
  "eval_args [] = Inr []"
| "eval_args (a # rest) =
     (case a of
        Inl e \<Rightarrow> Inl e
      | Inr v \<Rightarrow> (case eval_args rest of Inl e \<Rightarrow> Inl e | Inr vs \<Rightarrow> Inr (v # vs)))"

text \<open>\<^verbatim>\<open>str(n)\<close> for a natural number: its decimal digits.\<close>

fun str_nat :: "nat \<Rightarrow> string" where
  "str_nat n = (if n < 10 then [''0123456789'' ! n]
                else str_nat (n div 10) @ [''0123456789'' ! (n mod 10)])"

definition str_py :: "pyval \<Rightarrow> string" where
  "str_py v =
     (case v of
        PStr s \<Rightarrow> s
      | PInt i \<Rightarrow> (if i < 0 then CHR ''-'' # str_nat (nat (- i)) else str_nat (nat i))
      | PBool b \<Rightarrow> (if b then ''True'' else ''False'')
      | PNone \<Rightarrow> ''None''
      | PObj name \<Rightarrow> name)"

text \<open>The truth value of a Python value in an \<^verbatim>\<open>if\<close>.\<close>

definition truthy :: "pyval \<Rightarrow> bool" where
  "truthy v =
     (case v of
        PStr s \<Rightarrow> s \<noteq> []
      | PInt i \<Rightarrow> i \<noteq> 0
      | PBool b \<Rightarrow> b
      | PNone \<Rightarrow> False
      | PObj name \<Rightarrow> True)"

text \<open>\<^verbatim>\<open>template.format(*args)\<close> for a template whose fields are all \<^verbatim>\<open>{}\<close>, with as many
  arguments as fields.\<close>

fun format_py :: "string \<Rightarrow> string list \<Rightarrow> string" where
  "format_py [] args = []"
| "format_py [c] args = [c]"
| "format_py (c # d # rest) args =
     (if c = CHR ''{'' \<and> d = CHR ''}'' then
        (case args of [] \<Rightarrow> c # d # format_py rest [] | a # args' \<Rightarrow> a @ format_py rest args')
      else c # format_py (d # rest) args)"

text \<open>\<^verbatim>\<open>cmd.split(" ")\<close> and \<^verbatim>\<open>" ".join(words)\<close>.\<close>

fun split_py :: "string \<Rightarrow> string list" where
  "split_py [] = [[]]"
| "split_py (c # cs) =
     (if c = CHR '' '' then [] # split_py cs
      else (case split_py cs of [] \<Rightarrow> [[c]] | w # ws \<Rightarrow> (c # w) # ws))"

fun join_py :: "string list \<Rightarrow> string" where
  "join_py [] = []"
| "join_py [w] = w"
| "join_py (w # v # ws) = w @ '' '' @ join_py (v # ws)"

subsection \<open>Launching the master\<close>

text \<open>The arguments of a call of \<^verbatim>\<open>run_master\<close>.\<close>

record master_call =
  configFilePath :: pyval
  dbPathRoot :: pyval
  serverPort :: pyval
  jsonRpcPort :: pyval
  seedHost :: pyval
  seedPort :: pyval
  mine :: pyval
  clean :: pyval
  kwargs :: scope

text \<open>The frame of the call: the parameters of \<^verbatim>\<open>run_master\<close>, in the order of its
  signature (\<^verbatim>\<open>kwargs\<close> is read through \<open>kwargs\<close> below).\<close>

definition run_master_frame :: "master_call \<Rightarrow> scope" where
  "run_master_frame call =
     [(''configFilePath'', configFilePath call), (''dbPathRoot'', dbPathRoot call),
      (''serverPort'', serverPort call), (''jsonRpcPort'', jsonRpcPort call),
      (''seedHost'', seedHost call), (''seedPort'', seedPort call),
      (''mine'', mine call), (''clean'', clean call)]"

definition master_template :: string where
  "master_template =
     ''python master.py --cluster_config={} --db_path_root={} '' @
     ''--server_port={} --local_port={} --seed_host={} --seed_port={} '' @
     ''--devp2p_port={} --devp2p_bootstrap_host={} '' @
     ''--devp2p_bootstrap_port={} --devp2p_min_peers={} --devp2p_max_peers={}''"

text \<open>
  \<^verbatim>\<open>run_master\<close>. The result is the argument vector handed to
  \<^verbatim>\<open>asyncio.create_subprocess_exec\<close>, which stands for the process spawned.
\<close>

definition run_master :: "master_call \<Rightarrow> exn + string list" where
  "run_master call =
     (let frame = run_master_frame call in
      case eval_args
             [load_name frame ''configFilePath'', load_name frame ''dbPath'',
              load_name frame ''serverPort'', load_name frame ''jsonRpcPort'',
              load_name frame ''seedHost'', load_name frame ''seedPort'',
              subscript (kwargs call) ''devp2p_port'',
              subscript (kwargs call) ''devp2p_bootstrap_host'',
              subscript (kwargs call) ''devp2p_bootstrap_port'',
              subscript (kwargs call) ''devp2p_min_peers'',
              subscript (kwargs call) ''devp2p_max_peers''] of
        Inl e \<Rightarrow> Inl e
      | Inr vals \<Rightarrow>
          (let cmd = format_py master_template (map str_py vals);
               cmd1 = (if truthy (mine call) then cmd @ '' --mine=true'' else cmd)
           in case subscript (kwargs call) ''devp2p'' of
                Inl e \<Rightarrow> Inl e
              | Inr devp2p \<Rightarrow>
                  (let cmd2 = (if truthy devp2p then cmd1 @ '' --devp2p=true'' else cmd1);
                       cmd3 = (if truthy (clean call) then cmd2 @ '' --clean=true'' else cmd2)
                   in Inr (split_py cmd3))))"

text \<open>A \<^verbatim>\<open>Cluster\<close> object; a process of \<^verbatim>\<open>procs\<close> is its prefix and its argument
  vector.\<close>

record Cluster =
  config_master :: scope
  cluster_configFilePath :: pyval
  procs :: "(string \<times> string list) list"
  shutdownCalled :: bool
  cluster_mine :: pyval
  cluster_clean :: pyval
  clusterID :: string

text \<open>\<^verbatim>\<open>Cluster.runMaster\<close>: the keyword arguments are read from
  \<^verbatim>\<open>self.config["master"]\<close> in the order written, then \<^verbatim>\<open>run_master\<close> is called and the
  process appended to \<^verbatim>\<open>self.procs\<close>. (Eleven reads give eleven values: the branch of
  another count is never taken.)\<close>

definition Cluster_runMaster :: "Cluster \<Rightarrow> exn + Cluster" where
  "Cluster_runMaster self =
     (let m = config_master self in
      case eval_args
             [subscript m ''db_path_root'', subscript m ''server_port'',
              subscript m ''json_rpc_port'', subscript m ''seed_host'',
              subscript m ''seed_port'', subscript m ''devp2p'', subscript m ''devp2p_port'',
              subscript m ''devp2p_bootstrap_host'', subscript m ''devp2p_bootstrap_port'',
              subscript m ''devp2p_min_peers'', subscript m ''devp2p_max_peers''] of
        Inr [root, sport, jport, shost, sdport, dp, dport, dhost, dbport, dmin, dmax] \<Rightarrow>
          (case run_master
                  \<lparr>configFilePath = cluster_configFilePath self, dbPathRoot = root,
                   serverPort = sport, jsonRpcPort = jport, seedHost = shost,
                   seedPort = sdport, mine = cluster_mine self, clean = cluster_clean self,
                   kwargs = [(''devp2p'', dp), (''devp2p_port'', dport),
                             (''devp2p_bootstrap_host'', dhost),
                             (''devp2p_bootstrap_port'', dbport),
                             (''devp2p_min_peers'', dmin), (''devp2p_max_peers'', dmax)]\<rparr> of
             Inl e \<Rightarrow> Inl e
           | Inr master \<Rightarrow> Inr (self\<lparr>procs := procs self @ [(clusterID self @ ''MASTER'', master)]\<rparr>))
      | Inr vals \<Rightarrow> Inl ValueError
      | Inl e \<Rightarrow> Inl e)"

text \<open>A cluster as \<^verbatim>\<open>main\<close> builds it with its defaults.\<close>

definition example_cluster :: Cluster where
  "example_cluster =
     \<lparr>config_master =
        [(''db_path_root'', PStr ''./''), (''server_port'', PInt 38291),
         (''json_rpc_port'', PInt 38391), (''seed_host'', PStr ''127.0.0.1''),
         (''seed_port'', PInt 38291), (''devp2p'', PBool False), (''devp2p_port'', PInt 29000),
         (''devp2p_bootstrap_host'', PStr ''0.0.0.0''), (''devp2p_bootstrap_port'', PInt 29000),
         (''devp2p_min_peers'', PInt 2), (''devp2p_max_peers'', PInt 10)],
      cluster_configFilePath = PStr ''/tmp/tmpcfg'', procs = [], shutdownCalled = False,
      cluster_mine = PBool False, cluster_clean = PBool False, clusterID = ''''\<rparr>"

subsection \<open>Shutting the cluster down\<close>

text \<open>
  The process table as \<^verbatim>\<open>psutil\<close> shows it: a process has a pid, a command line and
  children. \<open>gone\<close> says that the process exits and is reaped after
  \<^verbatim>\<open>children(recursive=True)\<close> listed it and before its turn in the loop of
  \<^verbatim>\<open>kill_child_processes\<close>; \<^verbatim>\<open>cmdline()\<close> and \<^verbatim>\<open>send_signal\<close> of such a process raise
  \<^verbatim>\<open>psutil.NoSuchProcess\<close>.
\<close>

datatype ptree = Process (pid: nat) (cmdline: "string list") (gone: bool) (children: "ptree list")

text \<open>
  \<^verbatim>\<open>parent.children(recursive=True)\<close>: every descendant, in the order of \<^verbatim>\<open>psutil\<close>,
  which keeps a stack of processes to visit, starting with the parent: it takes the last
  one pushed, appends all its children to the result and pushes them. The head of the
  list is the top of the stack.
\<close>

function psutil_walk :: "ptree list \<Rightarrow> ptree list" where
  "psutil_walk [] = []"
| "psutil_walk (Process p c g kids # stack) = kids @ psutil_walk (rev kids @ stack)"
  by pat_completeness auto
termination
  by (relation "measure (\<lambda>stack. sum_list (map size stack))")
     (simp_all add: size_list_conv_sum_list flip: rev_map)

definition descendants :: "ptree \<Rightarrow> ptree list" where
  "descendants parent = psutil_walk [parent]"

text \<open>\<open>getpid\<close> is \<^verbatim>\<open>os.getpid()\<close>; \<open>process_table p\<close> is the process of pid \<open>p\<close> with all
  below it, if there is one.\<close>

record os_world =
  getpid :: nat
  process_table :: "nat \<Rightarrow> ptree option"

text \<open>What the supervisor does to the outside: a line printed, SIGTERM sent to a pid.\<close>

datatype action = Printed string | SentSIGTERM nat

text \<open>The loop of \<^verbatim>\<open>kill_child_processes\<close>. The print is inside \<^verbatim>\<open>try\<close> /
  \<^verbatim>\<open>except Exception: pass\<close>; \<^verbatim>\<open>process.send_signal(sig)\<close> comes after it, outside.\<close>

fun signal_loop :: "ptree list \<Rightarrow> action list \<Rightarrow> exn option \<times> action list" where
  "signal_loop [] acts = (None, acts)"
| "signal_loop (process # rest) acts =
     (let acts1 = (if gone process then acts
                   else acts @ [Printed (''SIGTERM >>> '' @ join_py (tl (cmdline process)))])
      in if gone process then (Some (NoSuchProcess (pid process)), acts1)
         else signal_loop rest (acts1 @ [SentSIGTERM (pid process)]))"

definition banner :: string where
  "banner = ''================================ SHUTTING DOWN CLUSTER '' @
            ''================================''"

definition kill_child_processes ::
  "(nat \<Rightarrow> ptree option) \<Rightarrow> nat \<Rightarrow> exn option \<times> action list" where
  "kill_child_processes table parent_pid =
     (case table parent_pid of
        None \<Rightarrow> (None, [])
      | Some parent \<Rightarrow> signal_loop (descendants parent) [Printed banner])"

text \<open>\<^verbatim>\<open>Cluster.shutdown\<close>: the flag, then \<^verbatim>\<open>kill_child_processes(os.getpid())\<close>. The result
  is the exception that leaves the call, if any, the object and what was done.\<close>

definition Cluster_shutdown ::
  "os_world \<Rightarrow> Cluster \<Rightarrow> exn option \<times> Cluster \<times> action list" where
  "Cluster_shutdown w self =
     (let self1 = self\<lparr>shutdownCalled := True\<rparr>;
          (raised, acts) = kill_child_processes (process_table w) (getpid w)
      in (raised, self1, acts))"

text \<open>\<^verbatim>\<open>Cluster.waitAndShutdown\<close> from the moment \<^verbatim>\<open>proc.wait()\<close> returns, in the world of
  that moment.\<close>

definition waitAndShutdown ::
  "os_world \<Rightarrow> Cluster \<Rightarrow> string \<Rightarrow> exn option \<times> Cluster \<times> action list" where
  "waitAndShutdown w self prefix =
     (if shutdownCalled self then (None, self, [])
      else
        (let (raised, self1, acts) = Cluster_shutdown w self
         in (raised, self1,
             Printed (prefix @ '' is dead. Shutting down the cluster...'') # acts)))"

text \<open>
  A supervisor (pid 100) with the master (101), which has a child of its own (103), and a
  slave (102); and the same processes when the slave exits after the snapshot was taken.
\<close>

definition example_tree :: "bool \<Rightarrow> ptree" where
  "example_tree slave_gone =
     Process 100 [''python'', ''cluster.py''] False
       [Process 101 [''python'', ''master.py'', ''--server_port=38291''] False
          [Process 103 [''python'', ''miner.py''] False []],
        Process 102 [''pypy3'', ''slave.py'', ''--node_id=S0''] slave_gone []]"

definition example_world :: "bool \<Rightarrow> os_world" where
  "example_world slave_gone =
     \<lparr>getpid = 100,
      process_table = (\<lambda>p. if p = 100 then Some (example_tree slave_gone) else None)\<rparr>"

text \<open>
  A cluster object that tracks the master and two slaves, and the process table at the
  moment \<^verbatim>\<open>proc.wait()\<close> of the master has returned: the master (pid 101) is reaped and
  no longer listed, the slave \<^verbatim>\<open>S0\<close> (pid 102) exits after the snapshot was taken, the slave
  \<^verbatim>\<open>S1\<close> (pid 104) runs.
\<close>

definition running_cluster :: Cluster where
  "running_cluster = example_cluster\<lparr>procs :=
     [(''MASTER'', [''python'', ''master.py'', ''--server_port=38291'']),
      (''SLAVE_S0'', [''pypy3'', ''slave.py'', ''--node_id=S0'']),
      (''SLAVE_S1'', [''pypy3'', ''slave.py'', ''--node_id=S1''])]\<rparr>"

definition master_exit_tree :: ptree where
  "master_exit_tree =
     Process 100 [''python'', ''cluster.py''] False
       [Process 102 [''pypy3'', ''slave.py'', ''--node_id=S0''] True [],
        Process 104 [''pypy3'', ''slave.py'', ''--node_id=S1''] False []]"

definition master_exit_world :: os_world where
  "master_exit_world =
     \<lparr>getpid = 100, process_table = (\<lambda>p. if p = 100 then Some master_exit_tree else None)\<rparr>"

section \<open>quarkchain/p2p/p2p_network.py: refreshing the connections\<close>















section \<open>Properties of the overlay database\<close>

lemma overlay_step_wrapped: "wrapped_db (overlay_step self c) = wrapped_db self"
  by (cases c) (simp_all add: OverlayDb_put_def OverlayDb_delete_def)

lemma overlay_run_wrapped: "wrapped_db (overlay_run self calls) = wrapped_db self"
  unfolding overlay_run_def
  by (induction calls arbitrary: self) (simp_all add: overlay_step_wrapped)

lemma overlay_run_Cons: "overlay_run self (c # calls) = overlay_run (overlay_step self c) calls"
  by (simp add: overlay_run_def)

lemma OverlayDb_get_init: "OverlayDb_get (OverlayDb_init db) key = db key"
  by (simp add: OverlayDb_get_def OverlayDb_init_def)

lemma OverlayDb_get_put:
  "OverlayDb_get (OverlayDb_put self k v) key = (if k = key then Some v else OverlayDb_get self key)"
  by (simp add: OverlayDb_get_def OverlayDb_put_def split: option.splits)

lemma OverlayDb_get_delete:
  "OverlayDb_get (OverlayDb_delete self k) key = (if k = key then None else OverlayDb_get self key)"
  by (simp add: OverlayDb_get_def OverlayDb_delete_def split: option.splits)

lemma overlay_run_get:
  "OverlayDb_get (overlay_run self calls) key =
     (case latest_call calls key of
        Some r \<Rightarrow> r
      | None \<Rightarrow> OverlayDb_get self key)"
proof (induction calls arbitrary: self)
  case Nil
  show ?case by (simp add: overlay_run_def)
next
  case (Cons c calls)
  have "OverlayDb_get (overlay_run self (c # calls)) key =
      (case latest_call calls key of
         Some r \<Rightarrow> r
       | None \<Rightarrow> OverlayDb_get (overlay_step self c) key)"
    by (simp only: overlay_run_Cons Cons.IH)
  then show ?case
    by (cases c) (simp_all add: OverlayDb_get_put OverlayDb_get_delete split: option.splits)
qed

text \<open>
  C10. Whatever sequence of \<^verbatim>\<open>put\<close> and \<^verbatim>\<open>delete\<close> calls runs on an overlay built
  over a database, the wrapped database is the one it was, and \<^verbatim>\<open>get(key)\<close> answers
  what the latest call on that key wrote (the value of a put, \<^verbatim>\<open>None\<close> after a delete,
  also when the wrapped database holds the key), and the wrapped database's answer when
  no call named the key.
\<close>

theorem OverlayDb_writes_stay_in_overlay:
  "wrapped_db (overlay_run (OverlayDb_init db) calls) = db \<and>
   OverlayDb_get (overlay_run (OverlayDb_init db) calls) key = expected_read db calls key"
proof
  show "wrapped_db (overlay_run (OverlayDb_init db) calls) = db"
    by (simp add: overlay_run_wrapped OverlayDb_init_def)
  show "OverlayDb_get (overlay_run (OverlayDb_init db) calls) key = expected_read db calls key"
    by (simp add: overlay_run_get expected_read_def OverlayDb_get_init split: option.splits)
qed

section \<open>Properties of the cluster controller\<close>

subsection \<open>The retry loop\<close>

lemma connect_from_retry:
  "(\<forall>j<K. \<exists>e. attempt (k + j) = Inl e) \<Longrightarrow> attempt (k + K) = Inr c \<Longrightarrow>
   connect_from attempt k sleeps = Some (c, sleeps @ replicate K 1)"
proof (induction K arbitrary: k sleeps)
  case 0
  then show ?case by (subst connect_from.simps) simp
next
  case (Suc K)
  from Suc.prems(1) have "\<exists>e. attempt (k + 0) = Inl e" by blast
  then obtain e where e: "attempt k = Inl e" by auto
  have "\<forall>j<K. \<exists>e. attempt (Suc k + j) = Inl e"
  proof (intro allI impI)
    fix j assume "j < K"
    then have "Suc j < Suc K" by simp
    with Suc.prems(1) have "\<exists>e. attempt (k + Suc j) = Inl e" by blast
    then show "\<exists>e. attempt (Suc k + j) = Inl e" by simp
  qed
  moreover have "attempt (Suc k + K) = Inr c" using Suc.prems(2) by simp
  ultimately have "connect_from attempt (Suc k) (sleeps @ [1]) =
      Some (c, (sleeps @ [1]) @ replicate K 1)"
    by (rule Suc.IH)
  then show ?case
    by (subst connect_from.simps) (simp add: e replicate_app_Cons_same)
qed


text \<open>
  C8. If opening the connection raises on the first \<open>K\<close> attempts and succeeds on the
  next one, \<^verbatim>\<open>__connect\<close> returns that connection, having slept 1 after each failed
  attempt (\<open>K\<close> sleeps of 1) and nothing else. This holds for every \<open>K\<close>: no count of
  attempts ends the loop, and no exception of an attempt leaves it, the result being a
  connection and never an error.
\<close>

theorem connect_retries_until_success:
  assumes "\<forall>j<K. \<exists>e. open_connection env ip port j = Inl e"
    and "open_connection env ip port K = Inr c"
  shows "MasterServer_connect env ip port = Some (c, replicate K 1)"
  unfolding MasterServer_connect_def
  using connect_from_retry [of K "open_connection env ip port" 0 c "[]"] assms by simp

theorem connect_retries_until_success_witness:
  "open_connection example_env ''127.0.0.1'' 38000 0 = Inl OSError \<and>
   open_connection example_env ''127.0.0.1'' 38000 1 = Inl OSError \<and>
   open_connection example_env ''127.0.0.1'' 38000 2 = Inr 38000 \<and>
   MasterServer_connect example_env ''127.0.0.1'' 38000 = Some (38000, [1, 1])"
proof -
  have fails: "\<forall>j<2. \<exists>e. open_connection example_env ''127.0.0.1'' 38000 j = Inl e"
    by (simp add: example_env_def)
  have succeeds: "open_connection example_env ''127.0.0.1'' 38000 2 = Inr 38000"
    by (simp add: example_env_def)
  have "MasterServer_connect example_env ''127.0.0.1'' 38000 = Some (38000, [1, 1])"
    using connect_retries_until_success [OF fails succeeds] by (simp add: numeral_2_eq_2)
  then show ?thesis by (simp add: example_env_def)
qed

subsection \<open>Helper facts on the bring-up\<close>







lemma vr_loopStopped:
  "loopStopped (verify_and_register env info slave self) =
     (loopStopped self \<or> fst (sendPing env slave) \<noteq> info_id info
        \<or> snd (sendPing env slave) \<noteq> info_shardMaskList info)"
  by (simp add: verify_and_register_def verify_ping_def MasterServer_shutdown_def Let_def)

lemma vr_trace:
  "trace (verify_and_register env info slave self) = trace self @ [PingSent (conn slave)]"
  by (simp add: verify_and_register_def verify_ping_def MasterServer_shutdown_def Let_def)

lemma vr_pool:
  "slavePool (verify_and_register env info slave self) = pool_add (slavePool self) slave"
  by (simp add: verify_and_register_def verify_ping_def MasterServer_shutdown_def Let_def)


lemma SlaveConnection_init_Inr:
  "SlaveConnection_init c i ms = Inr slave \<Longrightarrow>
     ms \<noteq> [] \<and> conn slave = c \<and> slave_id slave = i \<and> shardMaskList slave = ms"
  by (auto simp: SlaveConnection_init_def check_def split: if_splits)

lemma SlaveConnection_init_Inl:
  "SlaveConnection_init c i ms = Inl e \<Longrightarrow> ms = [] \<and> e = CheckFailed"
  by (auto simp: SlaveConnection_init_def check_def split: if_splits)


lemma connectToSlaves_Cons_cases [consumes 1, case_names stopped raised registered]:
  assumes "connectToSlaves env (info # rest) self = Some (out, self')"
  obtains "loopStopped self" "out = Suspended" "self' = self"
  | c sleeps where "\<not> loopStopped self"
      "MasterServer_connect env (ip_str env (info_ip info)) (info_port info) = Some (c, sleeps)"
      "info_shardMaskList info = []" "out = Raised CheckFailed"
      "self' = self\<lparr>trace := trace self @ map Slept sleeps\<rparr>"
  | c sleeps slave where "\<not> loopStopped self"
      "MasterServer_connect env (ip_str env (info_ip info)) (info_port info) = Some (c, sleeps)"
      "SlaveConnection_init c (info_id info) (info_shardMaskList info) = Inr slave"
      "connectToSlaves env rest
         (verify_and_register env info slave (self\<lparr>trace := trace self @ map Slept sleeps\<rparr>))
       = Some (out, self')"
  using assms
  by (auto simp: Let_def dest: SlaveConnection_init_Inl
      split: if_splits option.splits sum.splits prod.splits)

lemma mesh_requests_append:
  "mesh_requests (xs @ ys) = mesh_requests xs @ mesh_requests ys"
  by (induction xs rule: mesh_requests.induct) simp_all

lemma mesh_requests_Slept: "mesh_requests (map Slept sl) = []"
  by (induction sl) simp_all

subsection \<open>Invariants of the bring-up\<close>

lemma set_pool_add: "set (pool_add pool x) = insert x (set pool)"
  by (auto simp: pool_add_def)

lemma pool_add_nonempty: "pool_add pool x \<noteq> []"
  by (auto simp: pool_add_def)

lemma connectToSlaves_trace:
  "connectToSlaves env infos self = Some (out, self') \<Longrightarrow>
     mesh_requests (trace self') = mesh_requests (trace self) \<and>
     (\<forall>s b. ConnectToSlavesReturned s b \<in> set (trace self') \<longrightarrow>
            ConnectToSlavesReturned s b \<in> set (trace self)) \<and>
     (loopStopped self \<longrightarrow> loopStopped self')"
proof (induction infos arbitrary: self)
  case Nil
  then show ?case by simp
next
  case (Cons info rest)
  from Cons.prems show ?case
  proof (cases rule: connectToSlaves_Cons_cases)
    case stopped
    then show ?thesis by simp
  next
    case (raised c sleeps)
    then show ?thesis by (auto simp: mesh_requests_append mesh_requests_Slept)
  next
    case (registered c sleeps slave)
    from Cons.IH [OF registered(4)] show ?thesis
      by (auto simp: vr_trace vr_loopStopped mesh_requests_append mesh_requests_Slept)
  qed
qed






lemma connectToSlaves_pool:
  "connectToSlaves env infos self = Some (out, self') \<Longrightarrow>
   (\<forall>slave\<in>set (slavePool self'). slave \<in> set (slavePool self) \<or>
      (\<exists>info\<in>set infos. slave_id slave = info_id info \<and>
                         shardMaskList slave = info_shardMaskList info)) \<and>
   (out = Returned \<longrightarrow> infos \<noteq> [] \<or> slavePool self \<noteq> [] \<longrightarrow> slavePool self' \<noteq> [])"
proof (induction infos arbitrary: self)
  case Nil
  then show ?case by simp
next
  case (Cons info rest)
  from Cons.prems(1) show ?case
  proof (cases rule: connectToSlaves_Cons_cases)
    case stopped
    then show ?thesis by simp
  next
    case (raised c sleeps)
    then show ?thesis by simp
  next
    case (registered c sleeps slave)
    have sl: "shardMaskList slave = info_shardMaskList info" "slave_id slave = info_id info"
      using SlaveConnection_init_Inr [OF registered(3)] by simp_all
    from Cons.IH [OF registered(4)] show ?thesis
      by (auto simp: vr_pool set_pool_add pool_add_nonempty sl)
  qed
qed



lemma mesh_loop_Cons_cases [consumes 2, case_names suspended raised succeeded failed]:
  assumes "mesh_loop env config (slave # rest) self = (out, self')"
    and "getSlaveInfoList env config = Inr infos"
  obtains "loopStopped self" "out = Suspended"
      "self' = self\<lparr>trace := trace self @ [ConnectToSlavesSent slave infos]\<rparr>"
  | e where "\<not> loopStopped self"
      "sendConnectToSlaves env slave infos = Inl e"
      "out = Raised e"
      "self' = self\<lparr>trace := trace self @ [ConnectToSlavesSent slave infos]\<rparr>"
  | "\<not> loopStopped self"
      "sendConnectToSlaves env slave infos = Inr True"
      "mesh_loop env config rest
         (self\<lparr>trace := trace self @
            [ConnectToSlavesSent slave infos,
             ConnectToSlavesReturned slave True]\<rparr>) = (out, self')"
  | "\<not> loopStopped self"
      "sendConnectToSlaves env slave infos = Inr False"
      "mesh_loop env config rest
         (self\<lparr>trace := trace self @
            [ConnectToSlavesSent slave infos,
             ConnectToSlavesReturned slave False], loopStopped := True\<rparr>) = (out, self')"
proof (cases "loopStopped self")
  case True
  with assms that(1) show ?thesis by (simp add: Let_def)
next
  case False
  show ?thesis
  proof (cases "sendConnectToSlaves env slave infos")
    case (Inl e)
    with False assms that(2) show ?thesis by (simp add: Let_def)
  next
    case (Inr success)
    show ?thesis
    proof (cases success)
      case True
      with False Inr assms that(3) show ?thesis by (simp add: Let_def)
    next
      case no: False
      with False Inr assms that(4) show ?thesis
        by (simp add: Let_def MasterServer_shutdown_def)
    qed
  qed
qed



lemma mesh_loop_requests:
  assumes infos: "getSlaveInfoList env config = Inr infos"
  shows "mesh_loop env config order self = (out, self') \<Longrightarrow>
   r \<in> set (mesh_requests (trace self')) \<Longrightarrow>
   r \<in> set (mesh_requests (trace self)) \<or> (fst r \<in> set order \<and> snd r = infos)"
proof (induction order arbitrary: self)
  case Nil
  then show ?case by simp
next
  case (Cons slave rest)
  from Cons.prems(1) infos show ?case
  proof (cases rule: mesh_loop_Cons_cases)
    case suspended
    with Cons.prems(2) show ?thesis by (auto simp: mesh_requests_append)
  next
    case (raised e)
    with Cons.prems(2) show ?thesis by (auto simp: mesh_requests_append)
  next
    case succeeded
    from Cons.IH [OF succeeded(3) Cons.prems(2)] show ?thesis
      by (auto simp: mesh_requests_append)
  next
    case failed
    from Cons.IH [OF failed(3) Cons.prems(2)] show ?thesis
      by (auto simp: mesh_requests_append)
  qed
qed


lemma connect_after_two:
  assumes "open_connection env = (\<lambda>ip port k. if k < 2 then Inl OSError else Inr (nat port))"
  shows "MasterServer_connect env ip port = Some (nat port, [1, 1])"
proof -
  have "connect_from (open_connection env ip port) 0 [] = Some (nat port, [] @ replicate 2 1)"
    by (rule connect_from_retry) (simp_all add: assms)
  then show ?thesis by (simp add: MasterServer_connect_def numeral_2_eq_2)
qed

lemmas bringup_defs =
  initCluster_def SlaveConnection_init_def check_def
  verify_and_register_def verify_ping_def sendPing_def pool_add_def assign_shards_def
  hasShard_def hasAllShards_def setupSlaveToSlaveConnections_def sendConnectToSlaves_def
  MasterServer_init_def MasterServer_shutdown_def Let_def

lemma upt_0_2: "[0..<2] = [0, Suc 0]"
  by (simp add: numeral_2_eq_2)

lemma replicate_2: "replicate 2 x = [x, x]"
  by (simp add: numeral_2_eq_2)

lemma example_env_sel:
  "ip_int example_env s = Some 2130706433"
  "ip_str example_env n = ''127.0.0.1''"
  "getShardSize example_env = 2"
  "is_shard_in_mask example_env shardId m =
     (if m = 2 then even shardId else if m = 3 then odd shardId else False)"
  "ping_reply example_env c = (if c = 38000 then (''S0'', [2]) else (''S1'', [3]))"
  "connect_reply example_env c targets = map (\<lambda>_. []) targets"
  "poolOrder example_env pool = pool"
  "open_connection example_env = (\<lambda>ip port k. if k < 2 then Inl OSError else Inr (nat port))"
  by (simp_all add: example_env_def)

lemmas example_run_simps =
  bringup_defs connect_after_two example_env_sel example_config_def upt_0_2 replicate_2
  S0_info_def S1_info_def S0_conn_def S1_conn_def


lemma example_run:
  "initCluster example_env example_config (MasterServer_init example_env) =
     Some (Returned,
       \<lparr>shardToSlaves = [[S0_conn], [S1_conn]], slavePool = [S0_conn, S1_conn],
        loopStopped = False,
        trace = [Slept 1, Slept 1, PingSent 38000, Slept 1, Slept 1, PingSent 38001,
                 ConnectToSlavesSent S0_conn [S0_info, S1_info],
                 ConnectToSlavesReturned S0_conn True,
                 ConnectToSlavesSent S1_conn [S0_info, S1_info],
                 ConnectToSlavesReturned S1_conn True]\<rparr>)"
  by (simp add: example_run_simps)

lemma example_getSlaveInfoList:
  "getSlaveInfoList example_env example_config = Inr [S0_info, S1_info]"
  "getSlaveInfoList failing_mesh_env example_config = Inr [S0_info, S1_info]"
  "getSlaveInfoList swapped_env example_config = Inr [S0_info, S1_info]"
  by (simp_all add: example_env_sel failing_mesh_env_def swapped_env_def example_config_def
      S0_info_def S1_info_def)

subsection \<open>The mesh phase\<close>

lemma initCluster_cases [consumes 1, case_names invalid early mesh]:
  assumes "initCluster env config self = Some (out, self')"
  obtains e where "getSlaveInfoList env config = Inl e" "out = Raised e" "self' = self"
  | infos where "getSlaveInfoList env config = Inr infos"
      "connectToSlaves env infos self = Some (out, self')"
  | infos self1 where "getSlaveInfoList env config = Inr infos"
      "connectToSlaves env infos self = Some (Returned, self1)"
      "hasAllShards self1"
      "mesh_loop env config (poolOrder env (slavePool self1)) self1 = (out, self')"
proof (cases "getSlaveInfoList env config")
  case (Inl e)
  with assms that(1) show ?thesis by (simp add: initCluster_def)
next
  case (Inr infos)
  show ?thesis
  proof (cases "connectToSlaves env infos self")
    case None
    with Inr assms show ?thesis by (simp add: initCluster_def)
  next
    case (Some r)
    obtain out1 self1 where r: "r = (out1, self1)" by (cases r)
    show ?thesis
    proof (cases "out1 = Returned \<and> hasAllShards self1")
      case True
      with Inr Some r assms that(3) show ?thesis
        by (simp add: initCluster_def setupSlaveToSlaveConnections_def)
    next
      case False
      with Inr Some r assms have "out = out1 \<and> self' = self1"
        by (cases out1) (auto simp: initCluster_def)
      with Inr Some r that(2) show ?thesis by simp
    qed
  qed
qed

lemma init_trace: "trace (MasterServer_init env) = []"
  by (simp add: MasterServer_init_def)





lemma init_pool: "slavePool (MasterServer_init env) = []"
  by (simp add: MasterServer_init_def)

lemma initCluster_requests:
  assumes "initCluster env config (MasterServer_init env) = Some (out, self')"
    and "(slave, targets) \<in> set (mesh_requests (trace self'))"
    and "\<forall>pool. set (poolOrder env pool) = set pool"
  shows "getSlaveInfoList env config = Inr targets \<and>
         (\<exists>info\<in>set targets. info_id info = slave_id slave \<and>
             info_shardMaskList info = shardMaskList slave)"
  using assms(1)
proof (cases rule: initCluster_cases)
  case (invalid e)
  with assms(2) show ?thesis by (simp add: init_trace)
next
  case (early infos)
  from connectToSlaves_trace [OF early(2)] assms(2) show ?thesis by (simp add: init_trace)
next
  case (mesh infos self1)
  from connectToSlaves_trace [OF mesh(2)] have "mesh_requests (trace self1) = []"
    by (simp add: init_trace)
  with mesh_loop_requests [OF mesh(1) mesh(4) assms(2)]
  have in_order: "slave \<in> set (poolOrder env (slavePool self1))"
    and targets: "targets = infos" by simp_all
  from in_order assms(3) have "slave \<in> set (slavePool self1)" by simp
  with connectToSlaves_pool [OF mesh(2)]
  have "\<exists>info\<in>set infos. slave_id slave = info_id info \<and>
          shardMaskList slave = info_shardMaskList info"
    by (auto simp: init_pool)
  with targets mesh(1) show ?thesis by auto
qed

text \<open>
  C5, as the specification has it: the mesh request to a slave carries the connection info
  of the other configured slaves, the recipient left out. In the bring-up of the example
  cluster the request to \<^verbatim>\<open>S0\<close> carries both entries, its own included, which is not the
  list of the other slaves.
\<close>

theorem mesh_request_excludes_recipient_counterexample:
  "getSlaveInfoList example_env example_config = Inr [S0_info, S1_info] \<and>
   sent_mesh_requests example_env example_config =
     Some [(S0_conn, [S0_info, S1_info]), (S1_conn, [S0_info, S1_info])] \<and>
   other_slaves [S0_info, S1_info] S0_conn = [S1_info] \<and>
   [S0_info, S1_info] \<noteq> other_slaves [S0_info, S1_info] S0_conn"
  by (simp add: sent_mesh_requests_def example_run example_getSlaveInfoList other_slaves_def)
     (simp add: S0_info_def S1_info_def S0_conn_def)

text \<open>
  C5, amended. Every mesh request of a bring-up from a fresh \<^verbatim>\<open>MasterServer\<close> carries the
  connection info of all configured slaves, in the order of the configuration, and the
  entry of the recipient is among them.
\<close>

theorem mesh_request_carries_whole_list:
  assumes "initCluster env config (MasterServer_init env) = Some (out, self')"
    and "(slave, targets) \<in> set (mesh_requests (trace self'))"
    and "\<forall>pool. set (poolOrder env pool) = set pool"
  shows "getSlaveInfoList env config = Inr targets \<and>
         (\<exists>info\<in>set targets. info_id info = slave_id slave \<and>
             info_shardMaskList info = shardMaskList slave)"
  using assms by (rule initCluster_requests)

theorem mesh_request_carries_whole_list_witness:
  "initCluster example_env example_config (MasterServer_init example_env) =
     Some (Returned, example_final) \<and>
   (S0_conn, [S0_info, S1_info]) \<in> set (mesh_requests (trace example_final)) \<and>
   poolOrder example_env [S1_conn, S0_conn] = [S1_conn, S0_conn] \<and>
   getSlaveInfoList example_env example_config = Inr [S0_info, S1_info] \<and>
   S0_info \<in> set [S0_info, S1_info] \<and> info_id S0_info = slave_id S0_conn \<and>
   info_shardMaskList S0_info = shardMaskList S0_conn"
proof -
  have run: "initCluster example_env example_config (MasterServer_init example_env) =
     Some (Returned, example_final)"
    by (simp add: example_run example_final_def)
  have req: "(S0_conn, [S0_info, S1_info]) \<in> set (mesh_requests (trace example_final))"
    by (simp add: example_final_def)
  have order: "\<forall>pool. set (poolOrder example_env pool) = set pool"
    by (simp add: example_env_sel)
  have whole: "getSlaveInfoList example_env example_config = Inr [S0_info, S1_info]"
    using mesh_request_carries_whole_list [OF run req order] by simp
  have rest: "poolOrder example_env [S1_conn, S0_conn] = [S1_conn, S0_conn] \<and>
      S0_info \<in> set [S0_info, S1_info] \<and> info_id S0_info = slave_id S0_conn \<and>
      info_shardMaskList S0_info = shardMaskList S0_conn"
    by (simp add: example_env_sel S0_info_def S0_conn_def)
  from run req whole rest show ?thesis by blast
qed

subsection \<open>The identity check\<close>

text \<open>
  C1. The configuration names \<^verbatim>\<open>S0\<close> at port 38000 and the process there answers the ping
  with the id \<^verbatim>\<open>S9\<close>. \<^verbatim>\<open>__connectToSlaves\<close> calls \<^verbatim>\<open>shutdown\<close> and goes on in the
  same loop body: the connection is in \<^verbatim>\<open>slavePool\<close> and in the entry of shard 0 of
  \<^verbatim>\<open>shardToSlaves\<close> when the coroutine is left at the next connection attempt.
\<close>

theorem mismatched_slave_is_registered:
  "initCluster swapped_env example_config (MasterServer_init swapped_env) =
     Some (Suspended,
       \<lparr>shardToSlaves = [[S0_conn], []], slavePool = [S0_conn], loopStopped = True,
        trace = [Slept 1, Slept 1, PingSent 38000]\<rparr>)"
  by (simp add: example_run_simps swapped_env_def)

subsection \<open>The coverage check\<close>












section \<open>Properties of the supervisor\<close>

subsection \<open>Launching the master\<close>

text \<open>
  C2. Every call of \<^verbatim>\<open>run_master\<close> raises \<^verbatim>\<open>NameError\<close> for the name \<^verbatim>\<open>dbPath\<close>, which
  is read as the second argument of \<^verbatim>\<open>format\<close> and bound neither in the frame (the
  parameter is \<^verbatim>\<open>dbPathRoot\<close>) nor in the module; so does \<^verbatim>\<open>Cluster.runMaster\<close> on the
  cluster of the defaults. No master process is spawned.
\<close>

theorem run_master_raises_NameError:
  "run_master call = Inl (NameError ''dbPath'') \<and>
   Cluster_runMaster example_cluster = Inl (NameError ''dbPath'')"
proof -
  have "run_master c = Inl (NameError ''dbPath'')" for c
    by (simp add: run_master_def run_master_frame_def load_name_def module_globals_def)
  then show ?thesis
    by (simp add: Cluster_runMaster_def example_cluster_def subscript_def)
qed

subsection \<open>Shutting down\<close>

text \<open>
  C4. The supervisor (pid 100) has the master (101, with a child 103) and a slave (102),
  and the slave exits after \<^verbatim>\<open>children(recursive=True)\<close> listed it. \<^verbatim>\<open>Cluster.shutdown\<close>
  sets the flag and signals the master; \<^verbatim>\<open>send_signal\<close> of the exited slave raises
  \<^verbatim>\<open>psutil.NoSuchProcess\<close>, which leaves \<^verbatim>\<open>kill_child_processes\<close> and \<^verbatim>\<open>shutdown\<close>
  before the child of the master is signalled.
\<close>

theorem shutdown_raises_on_exited_process:
  "map pid (descendants (example_tree True)) = [101, 102, 103] \<and>
   Cluster_shutdown (example_world True) example_cluster =
     (Some (NoSuchProcess 102), example_cluster\<lparr>shutdownCalled := True\<rparr>,
      [Printed banner, Printed ''SIGTERM >>> master.py --server_port=38291'',
       SentSIGTERM 101])"
  by (simp add: Cluster_shutdown_def kill_child_processes_def example_world_def
      example_tree_def descendants_def Let_def)

text \<open>
  C7. The cluster tracks the master and the slaves \<^verbatim>\<open>S0\<close> and \<^verbatim>\<open>S1\<close>. The master exits
  first, and \<^verbatim>\<open>S0\<close> exits after \<^verbatim>\<open>children(recursive=True)\<close> listed it. The
  \<^verbatim>\<open>waitAndShutdown\<close> of the master prints, sets the flag and calls \<^verbatim>\<open>shutdown\<close>, where
  \<^verbatim>\<open>send_signal\<close> of \<^verbatim>\<open>S0\<close> raises \<^verbatim>\<open>psutil.NoSuchProcess\<close>: the exception leaves
  \<^verbatim>\<open>waitAndShutdown\<close> and no signal is sent to the running slave \<^verbatim>\<open>S1\<close> (pid 104). With
  the flag set, the \<^verbatim>\<open>waitAndShutdown\<close> of another process does nothing.
\<close>

theorem first_exit_leaves_slave_running:
  "map pid (descendants master_exit_tree) = [102, 104] \<and>
   waitAndShutdown master_exit_world running_cluster ''MASTER'' =
     (Some (NoSuchProcess 102), running_cluster\<lparr>shutdownCalled := True\<rparr>,
      [Printed ''MASTER is dead. Shutting down the cluster...'', Printed banner]) \<and>
   waitAndShutdown master_exit_world (running_cluster\<lparr>shutdownCalled := True\<rparr>) ''SLAVE_S0'' =
     (None, running_cluster\<lparr>shutdownCalled := True\<rparr>, [])"
  by (simp add: waitAndShutdown_def Cluster_shutdown_def kill_child_processes_def
      master_exit_world_def master_exit_tree_def descendants_def running_cluster_def
      example_cluster_def Let_def)

section \<open>Properties of the connection refresh\<close>



















end
